theory Spec2Isabelle
  imports Main
begin

section \<open>JavaScript values\<close>

text \<open>
  The route handler and the client component are TypeScript over values typed \<open>any\<close>:
  the parsed request body, the value a rejected promise carries, the object the model
  library resolves to. They are modelled by one datatype of JavaScript data values.
  Numbers are integers (the code only tests a number for zero and renders it in a
  template literal); an object is the association list of its own properties, the first
  binding of a key being the property's value.
\<close>

datatype jsval =
    JUndefined
  | JNull
  | JBool bool
  | JNum int
  | JStr string
  | JArr "jsval list"
  | JObj "(string \<times> jsval) list"

text \<open>\<open>!v\<close> is \<open>\<not> truthy v\<close>: the falsy values are undefined, null, false, 0 and "".\<close>

fun truthy :: "jsval \<Rightarrow> bool" where
  "truthy JUndefined = False"
| "truthy JNull = False"
| "truthy (JBool b) = b"
| "truthy (JNum n) = (n \<noteq> 0)"
| "truthy (JStr s) = (s \<noteq> [])"
| "truthy (JArr xs) = True"
| "truthy (JObj fs) = True"

text \<open>\<open>a || b\<close> on values.\<close>

definition js_or :: "jsval \<Rightarrow> jsval \<Rightarrow> jsval" where
  "js_or a b = (if truthy a then a else b)"

text \<open>
  A computation that may throw is a sum: \<open>Inl e\<close> is "threw the value \<open>e\<close>".
  The engine's own faults are \<open>TypeError\<close> objects; only their having a string
  \<open>message\<close> matters below, the wording is the engine's.
\<close>

definition TypeError :: "string \<Rightarrow> jsval" where
  "TypeError m = JObj [(''name'', JStr ''TypeError''), (''message'', JStr m)]"

definition own :: "(string \<times> jsval) list \<Rightarrow> string \<Rightarrow> jsval" where
  "own fs k = (case map_of fs k of None \<Rightarrow> JUndefined | Some v \<Rightarrow> v)"

text \<open>
  \<open>v.k\<close> for the property names the code reads (\<open>image\<close>, \<open>mimeType\<close>,
  \<open>message\<close>, \<open>error\<close>, \<open>instructions\<close>, \<open>data\<close>, \<open>raw_text\<close>): reading a
  property of undefined or null throws, a primitive or an array has none of them.
\<close>

fun get_prop :: "jsval \<Rightarrow> string \<Rightarrow> jsval + jsval" where
  "get_prop JUndefined k = Inl (TypeError (''Cannot read properties of undefined (reading '' @ k @ '')''))"
| "get_prop JNull k = Inl (TypeError (''Cannot read properties of null (reading '' @ k @ '')''))"
| "get_prop (JObj fs) k = Inr (own fs k)"
| "get_prop v k = Inr JUndefined"

text \<open>\<open>String.prototype.includes\<close>: \<open>p\<close> occurs in \<open>s\<close> as a contiguous substring.\<close>

fun str_includes :: "string \<Rightarrow> string \<Rightarrow> bool" where
  "str_includes [] p = (p = [])"
| "str_includes (c # cs) p = (take (length p) (c # cs) = p \<or> str_includes cs p)"

text \<open>
  The method call \<open>v.includes(p)\<close> with a string argument: substring search on a
  string, membership of the string \<open>p\<close> on an array, and a TypeError on everything
  else (no data value has a callable \<open>includes\<close> of its own).
\<close>

fun js_includes :: "jsval \<Rightarrow> string \<Rightarrow> jsval + bool" where
  "js_includes (JStr s) p = Inr (str_includes s p)"
| "js_includes (JArr xs) p = Inr (JStr p \<in> set xs)"
| "js_includes JUndefined p = Inl (TypeError ''Cannot read properties of undefined (reading includes)'')"
| "js_includes JNull p = Inl (TypeError ''Cannot read properties of null (reading includes)'')"
| "js_includes v p = Inl (TypeError ''includes is not a function'')"

text \<open>\<open>v?.includes(p)\<close> in a condition: undefined (falsy) when \<open>v\<close> is undefined or null.\<close>

fun opt_includes :: "jsval \<Rightarrow> string \<Rightarrow> jsval + bool" where
  "opt_includes JUndefined p = Inr False"
| "opt_includes JNull p = Inr False"
| "opt_includes v p = js_includes v p"

subsection \<open>Conversion to string\<close>

definition digit_char :: "nat \<Rightarrow> char" where
  "digit_char d = char_of (48 + d)"

fun dec_nat :: "nat \<Rightarrow> string" where
  "dec_nat n = (if n < 10 then [digit_char n] else dec_nat (n div 10) @ [digit_char (n mod 10)])"

definition dec_int :: "int \<Rightarrow> string" where
  "dec_int i = (if i < 0 then CHR ''-'' # dec_nat (nat (- i)) else dec_nat (nat i))"

text \<open>
  \<open>ToString\<close> as a template literal and string concatenation apply it. An array joins
  its elements with commas, undefined and null elements giving the empty string. A
  plain object gives \<open>[object Object]\<close>, unless it has a \<open>toString\<close> property of its
  own: that is data, not a function, and the conversion throws.
\<close>

fun ToString :: "jsval \<Rightarrow> jsval + string"
  and join_elems :: "jsval list \<Rightarrow> jsval + string" where
  "ToString JUndefined = Inr ''undefined''"
| "ToString JNull = Inr ''null''"
| "ToString (JBool b) = Inr (if b then ''true'' else ''false'')"
| "ToString (JNum n) = Inr (dec_int n)"
| "ToString (JStr s) = Inr s"
| "ToString (JArr xs) = join_elems xs"
| "ToString (JObj fs) =
     (if ''toString'' \<in> fst ` set fs
      then Inl (TypeError ''Cannot convert object to primitive value'')
      else Inr ''[object Object]'')"
| "join_elems [] = Inr []"
| "join_elems (x # xs) =
     (case (if x = JUndefined \<or> x = JNull then Inr [] else ToString x) of
        Inl e \<Rightarrow> Inl e
      | Inr s \<Rightarrow>
          (if xs = [] then Inr s
           else (case join_elems xs of Inl e \<Rightarrow> Inl e | Inr r \<Rightarrow> Inr (s @ '','' @ r))))"

declare dec_nat.simps [simp del]

section \<open>The output schema\<close>

text \<open>
  The schemas are declared with the zod combinators \<open>z.string()\<close>, \<open>z.enum([...])\<close>,
  \<open>z.any()\<close>, \<open>.optional()\<close> and \<open>z.object({...})\<close>; \<open>.describe(...)\<close> attaches text
  for the model and does not change what is accepted. \<open>zparse\<close> is the library's
  parse for these combinators: a string schema accepts exactly the strings, an enum
  exactly its listed strings, an object schema an object whose declared keys all parse
  (an absent key is parsed as undefined), and the parsed object keeps the declared keys
  only. The result is the parsed value or the list of issues, each with the path of
  keys it was found at.
\<close>

datatype zschema =
    ZString
  | ZEnum "string list"
  | ZAny
  | ZOptional zschema
  | ZObject "(string \<times> zschema) list"

datatype zissue = Invalid_type | Invalid_enum_value

type_synonym zerror = "(string list \<times> zissue) list"

fun zparse :: "zschema \<Rightarrow> jsval \<Rightarrow> zerror + jsval"
  and zparse_shape :: "(string \<times> zschema) list \<Rightarrow> (string \<times> jsval) list \<Rightarrow> zerror \<times> (string \<times> jsval) list" where
  "zparse ZString v = (case v of JStr s \<Rightarrow> Inr (JStr s) | _ \<Rightarrow> Inl [([], Invalid_type)])"
| "zparse (ZEnum vs) v =
     (case v of
        JStr s \<Rightarrow> (if s \<in> set vs then Inr (JStr s) else Inl [([], Invalid_enum_value)])
      | _ \<Rightarrow> Inl [([], Invalid_type)])"
| "zparse ZAny v = Inr v"
| "zparse (ZOptional sch) v = (if v = JUndefined then Inr JUndefined else zparse sch v)"
| "zparse (ZObject shape) v =
     (case v of
        JObj fs \<Rightarrow>
          (case zparse_shape shape fs of
             ([], out) \<Rightarrow> Inr (JObj out)
           | (issues, out) \<Rightarrow> Inl issues)
      | _ \<Rightarrow> Inl [([], Invalid_type)])"
| "zparse_shape [] fs = ([], [])"
| "zparse_shape ((k, sch) # shape) fs =
     (let (issues, out) = zparse_shape shape fs in
      case zparse sch (own fs k) of
        Inl es \<Rightarrow> (map (\<lambda>(path, i). (k # path, i)) es @ issues, out)
      | Inr v \<Rightarrow>
          (issues, if v \<noteq> JUndefined \<or> k \<in> fst ` set fs then (k, v) # out else out))"

text \<open>
  The schema of the expense extractor (\<open>extractedDataSchema\<close> of the three handler
  versions with the expense prompt).
\<close>

definition purposes :: "string list" where
  "purposes = [''Conveyance'', ''Train'', ''Bus'', ''Food'', ''Hotel'', ''Project Expense'', ''Other'']"

definition extractedDataSchema :: zschema where
  "extractedDataSchema = ZObject
     [(''bill_no'', ZString),
      (''amount'', ZString),
      (''purpose'', ZEnum purposes),
      (''raw_text'', ZString)]"

text \<open>
  The schema of the general document extractor (\<open>extractedDataSchema\<close> of
  \<open>src/app/api/extract/route.ts\<close>), a different contract under the same name.
\<close>

definition extractedDataSchema_document :: zschema where
  "extractedDataSchema_document = ZObject
     [(''document_type'', ZString),
      (''raw_text'', ZString),
      (''structured_data'', ZOptional ZAny)]"

section \<open>The route handler\<close>

text \<open>
  \<open>NextResponse.json(body, { status })\<close>; the status is 200 when none is given.
\<close>

datatype response = NextResponse_json (resp_body: jsval) (resp_status: nat)

text \<open>
  \<open>generateObject\<close> belongs to the model library. The handler awaits it once, with the
  schema and the image payload (the two prompts are constants), and it either rejects
  with a value or resolves to a result whose \<open>object\<close> the handler reads: the library
  is a parameter \<open>gen\<close> from the call to its outcome.
\<close>

datatype gen_call = GenerateObject (call_schema: zschema) (call_image: jsval)

datatype gen_outcome = Rejects jsval | Resolves jsval

text \<open>
  What the caller of \<open>POST\<close> sees: the promise resolves to a response, or it rejects
  because a value was thrown out of the \<open>catch\<close> block.
\<close>

datatype post_result = Resolved response | Rejected jsval

text \<open>
  \<open>image.includes(",") ? image : `data:${mimeType || "image/jpeg"};base64,${image}`\<close>
\<close>

definition imageData :: "jsval \<Rightarrow> jsval \<Rightarrow> jsval + jsval" where
  "imageData image' mimeType =
     (case js_includes image' '','' of
        Inl e \<Rightarrow> Inl e
      | Inr True \<Rightarrow> Inr image'
      | Inr False \<Rightarrow>
          (case ToString (js_or mimeType (JStr ''image/jpeg'')) of
             Inl e \<Rightarrow> Inl e
           | Inr m \<Rightarrow>
               (case ToString image' of
                  Inl e \<Rightarrow> Inl e
                | Inr i \<Rightarrow> Inr (JStr (''data:'' @ m @ '';base64,'' @ i)))))"

text \<open>
  The \<open>try\<close> block. The request is what \<open>await request.json()\<close> gives: \<open>Inl e\<close> when
  it rejects with \<open>e\<close> (a body that is not JSON), \<open>Inr body\<close> otherwise. The result is
  the response returned or the value thrown, with the calls made to the model library.
\<close>

definition try_block ::
  "zschema \<Rightarrow> (gen_call \<Rightarrow> gen_outcome) \<Rightarrow> jsval + jsval \<Rightarrow> (jsval + response) \<times> gen_call list" where
  "try_block schema gen request =
     (case request of
        Inl e \<Rightarrow> (Inl e, [])
      | Inr body \<Rightarrow>
          (case get_prop body ''image'' of
             Inl e \<Rightarrow> (Inl e, [])
           | Inr image' \<Rightarrow>
               (case get_prop body ''mimeType'' of
                  Inl e \<Rightarrow> (Inl e, [])
                | Inr mimeType \<Rightarrow>
                    if \<not> truthy image'
                    then (Inr (NextResponse_json (JObj [(''error'', JStr ''No image provided'')]) 400), [])
                    else
                      (case imageData image' mimeType of
                         Inl e \<Rightarrow> (Inl e, [])
                       | Inr payload \<Rightarrow>
                           (case gen (GenerateObject schema payload) of
                              Rejects e \<Rightarrow> (Inl e, [GenerateObject schema payload])
                            | Resolves extractedData \<Rightarrow>
                                if \<not> truthy extractedData
                                then (Inr (NextResponse_json
                                        (JObj [(''error'', JStr ''Failed to extract data from image'')]) 500),
                                      [GenerateObject schema payload])
                                else (Inr (NextResponse_json
                                        (JObj [(''success'', JBool True), (''data'', extractedData)]) 200),
                                      [GenerateObject schema payload]))))))"

text \<open>
  The \<open>catch (error: any)\<close> block: three tests on \<open>error.message\<close>, in this order.
  It throws itself when \<open>error\<close> is undefined or null, or when the message has no
  \<open>includes\<close> method.
\<close>

definition catch_block :: "jsval \<Rightarrow> jsval + response" where
  "catch_block error =
     (case get_prop error ''message'' of
        Inl e \<Rightarrow> Inl e
      | Inr message \<Rightarrow>
          (case opt_includes message ''API_KEY'' of
             Inl e \<Rightarrow> Inl e
           | Inr True \<Rightarrow>
               Inr (NextResponse_json
                 (JObj [(''error'', JStr ''Invalid API key. Please check your GOOGLE_GEMINI_API_KEY in .env.local''),
                        (''instructions'', JStr ''Get a new API key from https://aistudio.google.com/apikey'')])
                 401)
           | Inr False \<Rightarrow>
               (case (case opt_includes message ''quota'' of
                        Inl e \<Rightarrow> Inl e
                      | Inr True \<Rightarrow> Inr True
                      | Inr False \<Rightarrow> opt_includes message ''rate limit'') of
                  Inl e \<Rightarrow> Inl e
                | Inr True \<Rightarrow>
                    Inr (NextResponse_json
                      (JObj [(''error'', JStr ''API rate limit exceeded. Please try again later or upgrade your plan.''),
                             (''details'', message)])
                      429)
                | Inr False \<Rightarrow>
                    Inr (NextResponse_json
                      (JObj [(''error'', JStr ''Failed to process image with Gemini API''),
                             (''details'', js_or message (JStr ''Unknown error'')),
                             (''suggestion'', JStr ''Please try again or use Basic OCR mode'')])
                      500))))"

definition POST ::
  "zschema \<Rightarrow> (gen_call \<Rightarrow> gen_outcome) \<Rightarrow> jsval + jsval \<Rightarrow> post_result \<times> gen_call list" where
  "POST schema gen request =
     (case try_block schema gen request of
        (Inr resp, calls) \<Rightarrow> (Resolved resp, calls)
      | (Inl error, calls) \<Rightarrow>
          (case catch_block error of
             Inr resp \<Rightarrow> (Resolved resp, calls)
           | Inl e \<Rightarrow> (Rejected e, calls)))"

section \<open>The client component\<close>

text \<open>
  The state of \<open>ImageOCR\<close> (the expense tracker version): one field per \<open>useState\<close>
  hook. The preview URL made by \<open>URL.createObjectURL(file)\<close> is represented by the
  file it shows. \<open>text\<close>, \<open>structuredData\<close> and \<open>error\<close> hold whatever the response
  carried, so they are values.
\<close>

datatype jsfile = File (file_name: string) (file_type: string)

record session =
  image' :: "jsfile option"
  previewUrl :: "jsfile option"
  text' :: jsval
  structuredData :: jsval
  status :: string
  isProcessing :: bool
  error' :: jsval
  apiKeyMissing :: bool




definition reset :: "session \<Rightarrow> session" where
  "reset s = s\<lparr>image' := None, previewUrl := None, text' := JStr [], structuredData := JNull,
     error' := JNull, apiKeyMissing := False\<rparr>"








section \<open>Notions of the specification\<close>

text \<open>
  A thrown value the \<open>catch\<close> block of the handler can classify: reading its
  \<open>message\<close> does not throw, and the message is absent, a string or an array.
\<close>

definition classifiable :: "jsval \<Rightarrow> bool" where
  "classifiable e =
     (case get_prop e ''message'' of
        Inl _ \<Rightarrow> False
      | Inr message \<Rightarrow>
          (case message of JBool _ \<Rightarrow> False | JNum _ \<Rightarrow> False | JObj _ \<Rightarrow> False | _ \<Rightarrow> True))"

text \<open>
  A self-describing data URI, in the specification's words a text that embeds its MIME
  type before the data: \<open>data:\<close>, the media type, a comma, the data.
\<close>

definition is_data_uri :: "string \<Rightarrow> bool" where
  "is_data_uri s = (take 5 s = ''data:'' \<and> CHR '','' \<in> set (drop 5 s))"


section \<open>Auxiliary facts\<close>

subsection \<open>Strings and thrown values\<close>

text \<open>\<open>str_includes\<close> is the substring relation.\<close>

lemma take_prefix_iff: "take (length p) s = p \<longleftrightarrow> (\<exists>b. s = p @ b)"
  by (metis append_eq_conv_conj append_take_drop_id)

lemma str_includes_iff: "str_includes s p \<longleftrightarrow> (\<exists>a b. s = a @ p @ b)"
proof (induction s)
  case Nil
  then show ?case by simp
next
  case (Cons c cs)
  have "(\<exists>a b. c # cs = a @ p @ b) \<longleftrightarrow> (\<exists>b. c # cs = p @ b) \<or> (\<exists>a b. cs = a @ p @ b)"
  proof
    assume "\<exists>a b. c # cs = a @ p @ b"
    then obtain a b where ab: "c # cs = a @ p @ b" by blast
    show "(\<exists>b. c # cs = p @ b) \<or> (\<exists>a b. cs = a @ p @ b)"
    proof (cases a)
      case Nil
      with ab show ?thesis by auto
    next
      case (Cons x a')
      with ab have "cs = a' @ p @ b" by simp
      then show ?thesis by blast
    qed
  next
    assume "(\<exists>b. c # cs = p @ b) \<or> (\<exists>a b. cs = a @ p @ b)"
    then show "\<exists>a b. c # cs = a @ p @ b"
    proof
      assume "\<exists>b. c # cs = p @ b"
      then obtain b where "c # cs = [] @ p @ b" by auto
      then show ?thesis by blast
    next
      assume "\<exists>a b. cs = a @ p @ b"
      then obtain a b where "c # cs = (c # a) @ p @ b" by auto
      then show ?thesis by blast
    qed
  qed
  with Cons show ?case
    by (simp only: str_includes.simps take_prefix_iff)
qed

lemma str_includes_comma: "str_includes s '','' \<longleftrightarrow> CHR '','' \<in> set s"
proof -
  have "(\<exists>a b. s = a @ '','' @ b) \<longleftrightarrow> (\<exists>a b. s = a @ CHR '','' # b)"
    by simp
  then show ?thesis
    unfolding str_includes_iff in_set_conv_decomp .
qed

lemma get_prop_thrown: "get_prop v k = Inl e \<Longrightarrow> \<exists>m. e = TypeError m"
  by (cases v) auto

lemma js_includes_thrown: "js_includes v p = Inl e \<Longrightarrow> \<exists>m. e = TypeError m"
  by (cases v) auto

lemma ToString_thrown:
  "ToString v = Inl e \<longrightarrow> (\<exists>m. e = TypeError m)"
  "join_elems vs = Inl e \<longrightarrow> (\<exists>m. e = TypeError m)"
  by (induction v and vs rule: ToString_join_elems.induct)
     (auto split: if_splits sum.splits)

lemma imageData_thrown: "imageData i mt = Inl e \<Longrightarrow> \<exists>m. e = TypeError m"
  unfolding imageData_def
  by (auto split: sum.splits bool.splits dest: js_includes_thrown simp: ToString_thrown)

subsection \<open>The handler\<close>

text \<open>
  What the \<open>try\<close> block can throw: what \<open>request.json()\<close> rejected with, what
  the model call rejected with, or a TypeError of the engine.
\<close>

lemma try_block_thrown:
  assumes "try_block schema gen request = (Inl e, calls)"
  shows "request = Inl e \<or> (\<exists>c. gen c = Rejects e) \<or> (\<exists>m. e = TypeError m)"
  using assms unfolding try_block_def
  by (auto split: sum.splits if_splits gen_outcome.splits
           dest: get_prop_thrown imageData_thrown)

lemma try_block_calls: "length (snd (try_block schema gen request)) \<le> 1"
  unfolding try_block_def
  by (auto split: sum.splits if_splits gen_outcome.splits)

lemma try_block_status:
  "try_block schema gen request = (Inr resp, calls) \<Longrightarrow> resp_status resp \<in> {200, 400, 500}"
  unfolding try_block_def
  by (auto split: sum.splits if_splits gen_outcome.splits)

lemma try_block_rejected:
  assumes "get_prop body ''image'' = Inr img" and "get_prop body ''mimeType'' = Inr mt"
    and "truthy img" and "imageData img mt = Inr payload"
    and "gen (GenerateObject schema payload) = Rejects e"
  shows "try_block schema gen (Inr body) = (Inl e, [GenerateObject schema payload])"
  using assms by (simp add: try_block_def)

lemma try_block_resolved:
  assumes "get_prop body ''image'' = Inr img" and "get_prop body ''mimeType'' = Inr mt"
    and "truthy img" and "imageData img mt = Inr payload"
    and "gen (GenerateObject schema payload) = Resolves d"
  shows "try_block schema gen (Inr body) =
     (Inr (if truthy d then NextResponse_json (JObj [(''success'', JBool True), (''data'', d)]) 200
           else NextResponse_json (JObj [(''error'', JStr ''Failed to extract data from image'')]) 500),
      [GenerateObject schema payload])"
  using assms by (simp add: try_block_def)

text \<open>The \<open>catch\<close> block answers exactly the classifiable values.\<close>

lemma TypeError_classifiable: "classifiable (TypeError m)"
  by (simp add: classifiable_def TypeError_def own_def)

lemma catch_block_resolves:
  "classifiable e \<Longrightarrow> \<exists>resp. catch_block e = Inr resp \<and> resp_status resp \<in> {401, 429, 500}"
  unfolding classifiable_def catch_block_def
  by (auto split: sum.splits jsval.splits bool.splits)

lemma catch_block_throws:
  "\<not> classifiable e \<Longrightarrow> \<exists>m. catch_block e = Inl (TypeError m)"
  unfolding classifiable_def catch_block_def
  by (auto split: sum.splits jsval.splits bool.splits dest: get_prop_thrown)

subsection \<open>The schemas\<close>

lemma zparse_string: "zparse ZString v = Inr w \<longleftrightarrow> (\<exists>s. v = JStr s \<and> w = JStr s)"
  by (cases v) auto

lemma zparse_enum: "zparse (ZEnum vs) v = Inr w \<longleftrightarrow> (\<exists>s. v = JStr s \<and> s \<in> set vs \<and> w = JStr s)"
  by (cases v) auto

lemma zparse_issues_nonempty:
  "zparse sch v \<noteq> Inl []"
  "fst (zparse_shape shape fs) = [] \<or> fst (zparse_shape shape fs) \<noteq> []"
proof (induction sch v and shape fs rule: zparse_zparse_shape.induct)
  case (5 shape v)
  then show ?case
    by (auto split: jsval.splits prod.splits list.splits)
qed (auto split: jsval.splits)

lemma zparse_object:
  "zparse (ZObject shape) v = Inr w \<longleftrightarrow>
     (\<exists>fs out. v = JObj fs \<and> zparse_shape shape fs = ([], out) \<and> w = JObj out)"
  by (cases v) (auto split: prod.splits list.splits)

lemma zparse_shape_Cons:
  "zparse_shape ((k, sch) # shape) fs = ([], out) \<longleftrightarrow>
     (\<exists>v out'. zparse sch (own fs k) = Inr v \<and> zparse_shape shape fs = ([], out')
        \<and> out = (if v \<noteq> JUndefined \<or> k \<in> fst ` set fs then (k, v) # out' else out'))"
proof (cases "zparse sch (own fs k)")
  case (Inl es)
  with zparse_issues_nonempty(1) [of sch "own fs k"] have "es \<noteq> []" by auto
  with Inl show ?thesis
    by (simp add: Let_def split: prod.splits)
next
  case (Inr v)
  then show ?thesis
    by (auto simp: Let_def split: prod.splits)
qed

lemma zparse_shape_string:
  "zparse_shape ((k, ZString) # shape) fs = ([], out) \<longleftrightarrow>
     (\<exists>s out'. own fs k = JStr s \<and> zparse_shape shape fs = ([], out') \<and> out = (k, JStr s) # out')"
  unfolding zparse_shape_Cons zparse_string by auto

lemma zparse_shape_enum:
  "zparse_shape ((k, ZEnum vs) # shape) fs = ([], out) \<longleftrightarrow>
     (\<exists>s out'. own fs k = JStr s \<and> s \<in> set vs \<and> zparse_shape shape fs = ([], out')
        \<and> out = (k, JStr s) # out')"
  unfolding zparse_shape_Cons zparse_enum by auto

lemma zparse_shape_Nil: "zparse_shape [] fs = ([], out) \<longleftrightarrow> out = []"
  by auto

lemma extractedDataSchema_accepts:
  "zparse extractedDataSchema c = Inr v \<longleftrightarrow>
  (\<exists>fs b a p r. c = JObj fs \<and> own fs ''bill_no'' = JStr b \<and> own fs ''amount'' = JStr a
     \<and> own fs ''purpose'' = JStr p \<and> p \<in> set purposes \<and> own fs ''raw_text'' = JStr r
     \<and> v = JObj [(''bill_no'', JStr b), (''amount'', JStr a), (''purpose'', JStr p), (''raw_text'', JStr r)])"
  unfolding extractedDataSchema_def zparse_object zparse_shape_string zparse_shape_enum
    zparse_shape_Nil
  by auto

text \<open>
  The document schema of \<open>route.ts\<close> asks for \<open>document_type\<close> and \<open>raw_text\<close>
  only, and keeps \<open>structured_data\<close> as it comes.
\<close>

lemma zparse_shape_optional_any:
  "zparse_shape ((k, ZOptional ZAny) # shape) fs = ([], out) \<longleftrightarrow>
     (\<exists>out'. zparse_shape shape fs = ([], out')
        \<and> out = (if k \<in> fst ` set fs then (k, own fs k) # out' else out'))"
proof -
  have absent: "k \<notin> fst ` set fs \<Longrightarrow> own fs k = JUndefined"
  proof -
    assume "k \<notin> fst ` set fs"
    then have "map_of fs k = None" by (simp add: map_of_eq_None_iff)
    then show ?thesis by (simp add: own_def)
  qed
  have "zparse (ZOptional ZAny) (own fs k) = Inr v \<longleftrightarrow> v = own fs k" for v
    by auto
  then show ?thesis
    unfolding zparse_shape_Cons using absent by auto
qed

lemma extractedDataSchema_document_accepts:
  "zparse extractedDataSchema_document c = Inr v \<longleftrightarrow>
  (\<exists>fs d r. c = JObj fs \<and> own fs ''document_type'' = JStr d \<and> own fs ''raw_text'' = JStr r
     \<and> v = JObj ([(''document_type'', JStr d), (''raw_text'', JStr r)] @
            (if ''structured_data'' \<in> fst ` set fs
             then [(''structured_data'', own fs ''structured_data'')] else [])))"
  unfolding extractedDataSchema_document_def zparse_object zparse_shape_string
    zparse_shape_optional_any zparse_shape_Nil
  by auto

subsection \<open>The payload and the calls\<close>

lemma imageData_string:
  assumes "mimeType = JUndefined \<or> (\<exists>m. mimeType = JStr m)"
  shows "imageData (JStr s) mimeType =
     Inr (JStr (if CHR '','' \<in> set s then s
               else ''data:'' @ (case mimeType of JStr m \<Rightarrow> if m = [] then ''image/jpeg'' else m
                                 | _ \<Rightarrow> ''image/jpeg'') @ '';base64,'' @ s))"
  using assms by (auto simp: imageData_def js_or_def str_includes_comma)

lemma POST_calls:
  assumes "get_prop body ''image'' = Inr img" and "get_prop body ''mimeType'' = Inr mt"
    and "truthy img" and "imageData img mt = Inr payload"
  shows "snd (POST schema gen (Inr body)) = [GenerateObject schema payload]"
proof (cases "gen (GenerateObject schema payload)")
  case (Rejects e)
  show ?thesis
    unfolding POST_def try_block_rejected [OF assms, of gen schema e, OF Rejects]
    by (simp split: sum.splits)
next
  case (Resolves d)
  show ?thesis
    unfolding POST_def try_block_resolved [OF assms, of gen schema d, OF Resolves]
    by simp
qed

subsection \<open>The client\<close>




section \<open>The claims\<close>

subsection \<open>C1: schema validation\<close>

text \<open>
  Claim C1. The validator of the expense schema accepts a candidate exactly when it is
  an object whose \<open>bill_no\<close>, \<open>amount\<close>, \<open>purpose\<close> and \<open>raw_text\<close> are all present
  and strings and whose \<open>purpose\<close> is one of the seven literals; every other
  candidate is rejected with issues. What is accepted carries the candidate's own four
  strings: nothing is coerced and no default is filled in.
\<close>

theorem C1_schema_validation:
  "zparse extractedDataSchema c = Inr v \<longleftrightarrow>
  (\<exists>fs b a p r. c = JObj fs \<and> own fs ''bill_no'' = JStr b \<and> own fs ''amount'' = JStr a
     \<and> own fs ''purpose'' = JStr p
     \<and> p \<in> {''Conveyance'', ''Train'', ''Bus'', ''Food'', ''Hotel'', ''Project Expense'', ''Other''}
     \<and> own fs ''raw_text'' = JStr r
     \<and> v = JObj [(''bill_no'', JStr b), (''amount'', JStr a), (''purpose'', JStr p), (''raw_text'', JStr r)])"
  unfolding extractedDataSchema_accepts by (simp add: purposes_def)

text \<open>
  C1 at concrete candidates: a conforming one (its extra key is dropped, its strings are
  kept), one without \<open>amount\<close>, one whose \<open>amount\<close> is a number, and one whose
  \<open>purpose\<close> is free text.
\<close>

theorem C1_witness:
  "zparse extractedDataSchema
     (JObj [(''bill_no'', JStr ''INV-1''), (''amount'', JStr ''245.00''), (''purpose'', JStr ''Food''),
            (''raw_text'', JStr ''CAFE 245.00''), (''note'', JNull)])
   = Inr (JObj [(''bill_no'', JStr ''INV-1''), (''amount'', JStr ''245.00''), (''purpose'', JStr ''Food''),
            (''raw_text'', JStr ''CAFE 245.00'')])
   \<and> (\<nexists>v. zparse extractedDataSchema
        (JObj [(''bill_no'', JStr ''INV-1''), (''purpose'', JStr ''Food''), (''raw_text'', JStr ''CAFE'')])
        = Inr v)
   \<and> (\<nexists>v. zparse extractedDataSchema
        (JObj [(''bill_no'', JStr ''INV-1''), (''amount'', JNum 245), (''purpose'', JStr ''Food''),
               (''raw_text'', JStr ''CAFE'')])
        = Inr v)
   \<and> (\<nexists>v. zparse extractedDataSchema
        (JObj [(''bill_no'', JStr ''INV-1''), (''amount'', JStr ''245''), (''purpose'', JStr ''Taxi''),
               (''raw_text'', JStr ''CAFE'')])
        = Inr v)"
  unfolding C1_schema_validation by (simp add: own_def)

subsection \<open>C2: credential errors\<close>

text \<open>
  Claim C2, as the code has it. When the model call rejects with an error whose message
  contains \<open>API_KEY\<close> (upper case, with the underscore), the handler answers 401 with
  an error text and an \<open>instructions\<close> field. No assumption is made on quota or rate
  limit wording in the message: the credential test comes first.
\<close>

theorem C2_credential_error:
  assumes "get_prop body ''image'' = Inr img" and "get_prop body ''mimeType'' = Inr mt"
    and "truthy img" and "imageData img mt = Inr payload"
    and "gen (GenerateObject schema payload) = Rejects e"
    and "get_prop e ''message'' = Inr (JStr m)" and "str_includes m ''API_KEY''"
  shows "POST schema gen (Inr body) =
     (Resolved (NextResponse_json
        (JObj [(''error'', JStr ''Invalid API key. Please check your GOOGLE_GEMINI_API_KEY in .env.local''),
               (''instructions'', JStr ''Get a new API key from https://aistudio.google.com/apikey'')])
        401),
      [GenerateObject schema payload])"
  using assms(6,7)
  by (simp add: POST_def catch_block_def try_block_rejected [OF assms(1-4), of gen schema e, OF assms(5)])

text \<open>C2 at a message that also speaks of quota and rate limit: still 401.\<close>

theorem C2_witness:
  "POST extractedDataSchema
     (\<lambda>c. Rejects (JObj [(''message'', JStr ''quota: API_KEY_INVALID, rate limit'')]))
     (Inr (JObj [(''image'', JStr ''abc'')])) =
     (Resolved (NextResponse_json
        (JObj [(''error'', JStr ''Invalid API key. Please check your GOOGLE_GEMINI_API_KEY in .env.local''),
               (''instructions'', JStr ''Get a new API key from https://aistudio.google.com/apikey'')])
        401),
      [GenerateObject extractedDataSchema (JStr ''data:image/jpeg;base64,abc'')])"
  using C2_credential_error [of "JObj [(''image'', JStr ''abc'')]" "JStr ''abc''" JUndefined
        "JStr ''data:image/jpeg;base64,abc''"
        "\<lambda>c. Rejects (JObj [(''message'', JStr ''quota: API_KEY_INVALID, rate limit'')])"
        extractedDataSchema
        "JObj [(''message'', JStr ''quota: API_KEY_INVALID, rate limit'')]"
        "''quota: API_KEY_INVALID, rate limit''"]
  by (simp add: own_def imageData_def js_or_def)

text \<open>
  The claim as worded fails: a message that mentions \<open>API key\<close> in plain words does
  not contain \<open>API_KEY\<close>, and the handler answers 500 with the generic body.
\<close>

theorem C2_counterexample:
  "str_includes ''API key not valid. Please pass a valid API key.'' ''API key'' \<and>
   POST extractedDataSchema
     (\<lambda>c. Rejects (JObj [(''message'', JStr ''API key not valid. Please pass a valid API key.'')]))
     (Inr (JObj [(''image'', JStr ''abc'')])) =
     (Resolved (NextResponse_json
        (JObj [(''error'', JStr ''Failed to process image with Gemini API''),
               (''details'', JStr ''API key not valid. Please pass a valid API key.''),
               (''suggestion'', JStr ''Please try again or use Basic OCR mode'')])
        500),
      [GenerateObject extractedDataSchema (JStr ''data:image/jpeg;base64,abc'')])"
  by (simp add: POST_def try_block_def catch_block_def own_def imageData_def js_or_def)

subsection \<open>C3: every call resolves\<close>

text \<open>
  Claim C3, as the code has it. Provided that whatever \<open>request.json()\<close> or the model
  call rejects with is a value whose \<open>message\<close> can be read and is absent, a string or
  an array, the handler resolves, for every request, schema and model behaviour, to one
  response with status 200, 400, 401, 429 or 500, after at most one model call.
\<close>

theorem C3_resolves:
  assumes "\<And>e. request = Inl e \<Longrightarrow> classifiable e"
    and "\<And>c e. gen c = Rejects e \<Longrightarrow> classifiable e"
  shows "\<exists>resp calls. POST schema gen request = (Resolved resp, calls)
           \<and> resp_status resp \<in> {200, 400, 401, 429, 500} \<and> length calls \<le> 1"
proof (cases "try_block schema gen request")
  case (Pair r calls)
  have len: "length calls \<le> 1"
    using try_block_calls [of schema gen request] Pair by simp
  show ?thesis
  proof (cases r)
    case (Inr resp)
    with Pair try_block_status [of schema gen request resp calls] len
    show ?thesis by (auto simp: POST_def)
  next
    case (Inl e)
    with Pair try_block_thrown [of schema gen request e calls] assms
    have "classifiable e" by (auto simp: TypeError_classifiable)
    from catch_block_resolves [OF this] obtain resp
      where "catch_block e = Inr resp" "resp_status resp \<in> {401, 429, 500}" by blast
    with Pair Inl len show ?thesis by (auto simp: POST_def)
  qed
qed

text \<open>C3 at a model call that rejects with a bare string, which has no message.\<close>

theorem C3_witness:
  "\<exists>resp calls.
     POST extractedDataSchema (\<lambda>c. Rejects (JStr ''boom'')) (Inr (JObj [(''image'', JStr ''abc'')]))
       = (Resolved resp, calls)
     \<and> resp_status resp \<in> {200, 400, 401, 429, 500} \<and> length calls \<le> 1"
  using C3_resolves [of "Inr (JObj [(''image'', JStr ''abc'')])" "\<lambda>c. Rejects (JStr ''boom'')"
      extractedDataSchema]
  by (simp add: classifiable_def)

text \<open>
  The claim as worded fails for a thrown value of any shape: when the model call rejects
  with \<open>null\<close>, reading \<open>error.message\<close> in the \<open>catch\<close> block throws, and the
  handler's promise rejects.
\<close>

theorem C3_counterexample:
  "POST extractedDataSchema (\<lambda>c. Rejects JNull) (Inr (JObj [(''image'', JStr ''abc'')])) =
     (Rejected (TypeError ''Cannot read properties of null (reading message)''),
      [GenerateObject extractedDataSchema (JStr ''data:image/jpeg;base64,abc'')])"
  by (simp add: POST_def try_block_def catch_block_def own_def imageData_def js_or_def)

subsection \<open>C4: the image payload\<close>

text \<open>
  Claim C4, as the code has it. For a request whose image is a non-empty string and
  whose \<open>mimeType\<close> is a string or absent, the one model call carries the image
  unchanged when it contains a comma, and otherwise \<open>data:\<close>, the MIME type
  (\<open>image/jpeg\<close> when absent or empty), \<open>;base64,\<close> and the image. A data URI
  contains a comma, so it is always passed unchanged.
\<close>

theorem C4_image_payload:
  assumes "get_prop body ''image'' = Inr (JStr s)" and "s \<noteq> []"
    and "get_prop body ''mimeType'' = Inr mimeType"
    and "mimeType = JUndefined \<or> (\<exists>m. mimeType = JStr m)"
  shows "snd (POST schema gen (Inr body)) =
     [GenerateObject schema
        (JStr (if CHR '','' \<in> set s then s
               else ''data:'' @ (case mimeType of JStr m \<Rightarrow> if m = [] then ''image/jpeg'' else m
                                 | _ \<Rightarrow> ''image/jpeg'') @ '';base64,'' @ s))]
     \<and> (is_data_uri s \<longrightarrow> snd (POST schema gen (Inr body)) = [GenerateObject schema (JStr s)])"
proof -
  have comma: "is_data_uri s \<Longrightarrow> CHR '','' \<in> set s"
    unfolding is_data_uri_def by (auto dest: in_set_dropD)
  have t: "truthy (JStr s)"
    using assms(2) by simp
  have calls: "snd (POST schema gen (Inr body)) =
     [GenerateObject schema
        (JStr (if CHR '','' \<in> set s then s
               else ''data:'' @ (case mimeType of JStr m \<Rightarrow> if m = [] then ''image/jpeg'' else m
                                 | _ \<Rightarrow> ''image/jpeg'') @ '';base64,'' @ s))]"
    by (rule POST_calls [OF assms(1) assms(3) t imageData_string [OF assms(4)]])
  show ?thesis
  proof (intro conjI impI)
    show "snd (POST schema gen (Inr body)) =
     [GenerateObject schema
        (JStr (if CHR '','' \<in> set s then s
               else ''data:'' @ (case mimeType of JStr m \<Rightarrow> if m = [] then ''image/jpeg'' else m
                                 | _ \<Rightarrow> ''image/jpeg'') @ '';base64,'' @ s))]"
      by (rule calls)
  next
    assume "is_data_uri s"
    then show "snd (POST schema gen (Inr body)) = [GenerateObject schema (JStr s)]"
      using calls comma by simp
  qed
qed

text \<open>
  C4 at a data URI (passed unchanged), at bare base64 with a MIME type, and at bare
  base64 without one.
\<close>

theorem C4_witness:
  "is_data_uri ''data:image/png;base64,iVBOR''
   \<and> snd (POST extractedDataSchema (\<lambda>c. Resolves JNull)
        (Inr (JObj [(''image'', JStr ''data:image/png;base64,iVBOR''), (''mimeType'', JStr ''image/png'')])))
     = [GenerateObject extractedDataSchema (JStr ''data:image/png;base64,iVBOR'')]
   \<and> snd (POST extractedDataSchema (\<lambda>c. Resolves JNull)
        (Inr (JObj [(''image'', JStr ''iVBOR''), (''mimeType'', JStr ''image/png'')])))
     = [GenerateObject extractedDataSchema (JStr ''data:image/png;base64,iVBOR'')]
   \<and> snd (POST extractedDataSchema (\<lambda>c. Resolves JNull) (Inr (JObj [(''image'', JStr ''iVBOR'')])))
     = [GenerateObject extractedDataSchema (JStr ''data:image/jpeg;base64,iVBOR'')]"
  using
    C4_image_payload [of "JObj [(''image'', JStr ''data:image/png;base64,iVBOR''), (''mimeType'', JStr ''image/png'')]"
      "''data:image/png;base64,iVBOR''" "JStr ''image/png''" extractedDataSchema "\<lambda>c. Resolves JNull"]
    C4_image_payload [of "JObj [(''image'', JStr ''iVBOR''), (''mimeType'', JStr ''image/png'')]"
      "''iVBOR''" "JStr ''image/png''" extractedDataSchema "\<lambda>c. Resolves JNull"]
    C4_image_payload [of "JObj [(''image'', JStr ''iVBOR'')]"
      "''iVBOR''" JUndefined extractedDataSchema "\<lambda>c. Resolves JNull"]
  by (simp add: own_def is_data_uri_def)

text \<open>
  The claim as worded fails: \<open>a,b\<close> is no data URI, yet it contains a comma, so it
  is sent as it is and not behind a \<open>data:\<close> prefix.
\<close>

theorem C4_counterexample:
  "\<not> is_data_uri ''a,b''
   \<and> snd (POST extractedDataSchema (\<lambda>c. Resolves JNull) (Inr (JObj [(''image'', JStr ''a,b'')])))
     = [GenerateObject extractedDataSchema (JStr ''a,b'')]
   \<and> JStr ''a,b'' \<noteq> JStr (''data:'' @ ''image/jpeg'' @ '';base64,'' @ ''a,b'')"
  by (simp add: is_data_uri_def POST_def try_block_def own_def imageData_def)

subsection \<open>C5: rate limit and generic errors\<close>



subsection \<open>C6: no result\<close>

text \<open>
  Claim C6, as the code has it. When the model call completes without throwing and its
  \<open>object\<close> is falsy (undefined or null in particular), the handler answers 500 with
  the body \<open>{ error: "Failed to extract data from image" }\<close> and nothing else.
\<close>

theorem C6_no_result:
  assumes "get_prop body ''image'' = Inr img" and "get_prop body ''mimeType'' = Inr mt"
    and "truthy img" and "imageData img mt = Inr payload"
    and "gen (GenerateObject schema payload) = Resolves extractedData"
    and "\<not> truthy extractedData"
  shows "POST schema gen (Inr body) =
     (Resolved (NextResponse_json (JObj [(''error'', JStr ''Failed to extract data from image'')]) 500),
      [GenerateObject schema payload])"
  using assms(6)
  by (simp add: POST_def try_block_resolved [OF assms(1-4), of gen schema extractedData, OF assms(5)])

text \<open>C6 at a model call that resolves to no object.\<close>

theorem C6_witness:
  "POST extractedDataSchema (\<lambda>c. Resolves JUndefined) (Inr (JObj [(''image'', JStr ''abc'')])) =
     (Resolved (NextResponse_json (JObj [(''error'', JStr ''Failed to extract data from image'')]) 500),
      [GenerateObject extractedDataSchema (JStr ''data:image/jpeg;base64,abc'')])"
  using C6_no_result [of "JObj [(''image'', JStr ''abc'')]" "JStr ''abc''" JUndefined
      "JStr ''data:image/jpeg;base64,abc''" "\<lambda>c. Resolves JUndefined" extractedDataSchema JUndefined]
  by (simp add: own_def imageData_def js_or_def)

text \<open>
  The claim as worded fails on the message: the body's error text is not
  \<open>no data returned\<close>.
\<close>

theorem C6_counterexample:
  "(\<exists>resp calls.
      POST extractedDataSchema (\<lambda>c. Resolves JUndefined) (Inr (JObj [(''image'', JStr ''abc'')]))
        = (Resolved resp, calls)
      \<and> resp_status resp = 500
      \<and> get_prop (resp_body resp) ''error'' = Inr (JStr ''Failed to extract data from image''))
   \<and> JStr ''Failed to extract data from image'' \<noteq> JStr ''no data returned''"
  by (simp add: POST_def try_block_def own_def imageData_def js_or_def)

subsection \<open>C7: missing image\<close>

text \<open>
  Claim C7. For every request body that is an object without an \<open>image\<close> field, the
  handler answers 400 with the body \<open>{ error: "No image provided" }\<close> and makes no
  call to the model, whatever the schema and the model's behaviour.
\<close>

theorem C7_missing_image:
  assumes "map_of fs ''image'' = None"
  shows "POST schema gen (Inr (JObj fs)) =
     (Resolved (NextResponse_json (JObj [(''error'', JStr ''No image provided'')]) 400), [])"
  using assms by (simp add: POST_def try_block_def own_def)

text \<open>C7 at a body that has a MIME type only.\<close>

theorem C7_witness:
  "POST extractedDataSchema (\<lambda>c. Resolves (JObj [])) (Inr (JObj [(''mimeType'', JStr ''image/png'')])) =
     (Resolved (NextResponse_json (JObj [(''error'', JStr ''No image provided'')]) 400), [])"
  using C7_missing_image [of "[(''mimeType'', JStr ''image/png'')]" extractedDataSchema
      "\<lambda>c. Resolves (JObj [])"]
  by simp

subsection \<open>C8: sentinels\<close>

text \<open>
  Claim C8, as the code has it. Every output the validator accepts has \<open>bill_no\<close> and
  \<open>amount\<close> present as strings, the very strings of the candidate: neither field is
  ever omitted. The validator puts no condition on what the strings are: with a listed
  \<open>purpose\<close>, any \<open>bill_no\<close> and \<open>amount\<close> strings are accepted, the sentinels
  \<open>N/A\<close> and \<open>0\<close> like all others.
\<close>

theorem C8_fields_present:
  "(zparse extractedDataSchema c = Inr v \<longrightarrow>
      (\<exists>b a. get_prop v ''bill_no'' = Inr (JStr b) \<and> get_prop c ''bill_no'' = Inr (JStr b)
           \<and> get_prop v ''amount'' = Inr (JStr a) \<and> get_prop c ''amount'' = Inr (JStr a)))
   \<and> (p \<in> set purposes \<longrightarrow>
        zparse extractedDataSchema
          (JObj [(''bill_no'', JStr b'), (''amount'', JStr a'), (''purpose'', JStr p), (''raw_text'', JStr r)])
        = Inr (JObj [(''bill_no'', JStr b'), (''amount'', JStr a'), (''purpose'', JStr p), (''raw_text'', JStr r)]))"
proof (intro conjI impI)
  assume "zparse extractedDataSchema c = Inr v"
  then show "\<exists>b a. get_prop v ''bill_no'' = Inr (JStr b) \<and> get_prop c ''bill_no'' = Inr (JStr b)
           \<and> get_prop v ''amount'' = Inr (JStr a) \<and> get_prop c ''amount'' = Inr (JStr a)"
    unfolding extractedDataSchema_accepts by (auto simp: own_def)
next
  assume "p \<in> set purposes"
  then show "zparse extractedDataSchema
          (JObj [(''bill_no'', JStr b'), (''amount'', JStr a'), (''purpose'', JStr p), (''raw_text'', JStr r)])
        = Inr (JObj [(''bill_no'', JStr b'), (''amount'', JStr a'), (''purpose'', JStr p), (''raw_text'', JStr r)])"
    unfolding extractedDataSchema_accepts by (simp add: own_def)
qed

text \<open>C8 at an output that uses both sentinels.\<close>

theorem C8_witness:
  "zparse extractedDataSchema
     (JObj [(''bill_no'', JStr ''N/A''), (''amount'', JStr ''0''), (''purpose'', JStr ''Other''),
            (''raw_text'', JStr ''torn receipt'')])
   = Inr (JObj [(''bill_no'', JStr ''N/A''), (''amount'', JStr ''0''), (''purpose'', JStr ''Other''),
            (''raw_text'', JStr ''torn receipt'')])
   \<and> (\<exists>b a. get_prop (JObj [(''bill_no'', JStr ''N/A''), (''amount'', JStr ''0''),
                  (''purpose'', JStr ''Other''), (''raw_text'', JStr ''torn receipt'')]) ''bill_no'' = Inr (JStr b)
          \<and> get_prop (JObj [(''bill_no'', JStr ''N/A''), (''amount'', JStr ''0''),
                  (''purpose'', JStr ''Other''), (''raw_text'', JStr ''torn receipt'')]) ''amount'' = Inr (JStr a))"
  using C8_fields_present [of
      "JObj [(''bill_no'', JStr ''N/A''), (''amount'', JStr ''0''), (''purpose'', JStr ''Other''),
             (''raw_text'', JStr ''torn receipt'')]"
      "JObj [(''bill_no'', JStr ''N/A''), (''amount'', JStr ''0''), (''purpose'', JStr ''Other''),
             (''raw_text'', JStr ''torn receipt'')]"
      "''Other''" "''N/A''" "''0''" "''torn receipt''"]
  by (simp add: purposes_def own_def)

text \<open>
  The claim as worded fails: an output whose \<open>bill_no\<close> and \<open>amount\<close> are empty
  strings is accepted.
\<close>

theorem C8_counterexample:
  "zparse extractedDataSchema
     (JObj [(''bill_no'', JStr []), (''amount'', JStr []), (''purpose'', JStr ''Other''),
            (''raw_text'', JStr ''torn receipt'')])
   = Inr (JObj [(''bill_no'', JStr []), (''amount'', JStr []), (''purpose'', JStr ''Other''),
            (''raw_text'', JStr ''torn receipt'')])"
  unfolding extractedDataSchema_accepts by (simp add: own_def purposes_def)

subsection \<open>C9: a completion that arrives late\<close>




subsection \<open>C10: empty image\<close>

text \<open>
  Claim C10. A request body whose \<open>image\<close> is the empty string gets the answer of a
  body without the field: status 400, body \<open>{ error: "No image provided" }\<close>, and no
  call to the model.
\<close>

theorem C10_empty_image:
  assumes "map_of fs ''image'' = Some (JStr [])"
  shows "POST schema gen (Inr (JObj fs)) =
           (Resolved (NextResponse_json (JObj [(''error'', JStr ''No image provided'')]) 400), [])
       \<and> POST schema gen (Inr (JObj fs)) =
           POST schema gen (Inr (JObj (filter (\<lambda>(k, v). k \<noteq> ''image'') fs)))"
proof -
  have "map_of (filter (\<lambda>(k, v). k \<noteq> ''image'') fs) ''image'' = None"
    by (induction fs) auto
  then show ?thesis
    using assms by (simp add: POST_def try_block_def own_def)
qed

text \<open>C10 at a body with an empty image and a MIME type.\<close>

theorem C10_witness:
  "POST extractedDataSchema (\<lambda>c. Resolves (JObj []))
       (Inr (JObj [(''image'', JStr []), (''mimeType'', JStr ''image/png'')])) =
     (Resolved (NextResponse_json (JObj [(''error'', JStr ''No image provided'')]) 400), [])
   \<and> POST extractedDataSchema (\<lambda>c. Resolves (JObj []))
       (Inr (JObj [(''image'', JStr []), (''mimeType'', JStr ''image/png'')])) =
     POST extractedDataSchema (\<lambda>c. Resolves (JObj [])) (Inr (JObj [(''mimeType'', JStr ''image/png'')]))"
proof -
  have m: "map_of [(''image'', JStr []), (''mimeType'', JStr ''image/png'')] ''image'' = Some (JStr [])"
    by simp
  have f: "filter (\<lambda>(k, v). k \<noteq> ''image'') [(''image'', JStr []), (''mimeType'', JStr ''image/png'')]
      = [(''mimeType'', JStr ''image/png'')]"
    by simp
  show ?thesis
    using C10_empty_image [OF m, of extractedDataSchema "\<lambda>c. Resolves (JObj [])"] unfolding f .
qed

end
